theory Spec2Isabelle
  imports Complex_Main "HOL-Library.Word"
begin

section \<open>The VIN-seeded telemetry and health synthesizer of the two dashboard views\<close>

text \<open>
  The development embeds three functions of the React frontend:
  \<^item> \<open>getLatestHealthScore\<close> and \<open>generateSampleTelemetry\<close> of
    \<^verbatim>\<open>frontend/src/pages/VehicleMonitoring.jsx\<close> (lines 120-158 and 160-236);
  \<^item> \<open>generateSampleTelemetryForHealth\<close> of
    \<^verbatim>\<open>frontend/src/pages/CustomerDashboard.jsx\<close> (lines 86-110).
  The source copies the same computation by hand into each of them; the definitions below
  keep every copy written out, so that statements comparing two copies compare two texts.
\<close>

subsection \<open>JavaScript values\<close>

text \<open>
  A JavaScript string is a sequence of 16-bit code units. \<^verbatim>\<open>split('')\<close> yields
  exactly these units and \<^verbatim>\<open>charCodeAt(0)\<close> reads one as a number between 0 and 65535.
  The \<open>vin\<close> argument of the three functions is a string or \<^verbatim>\<open>undefined\<close>/\<^verbatim>\<open>null\<close>
  (the views pass \<^verbatim>\<open>selectedVehicle?.vin\<close> and \<^verbatim>\<open>vehicle.vin\<close>): it is a
  \<open>js_string option\<close>, with \<open>None\<close> for the two nullish values.
\<close>

type_synonym code_unit = "16 word"
type_synonym js_string = "code_unit list"

definition js_str :: "string \<Rightarrow> js_string" where
  \<comment> \<open>a string literal of the source, unit by unit\<close>
  "js_str s = map (\<lambda>c. of_nat (of_char c)) s"

datatype js_error = TypeError

definition falsy :: "js_string option \<Rightarrow> bool" where
  \<comment> \<open>\<^verbatim>\<open>!vin\<close>: nullish or the empty string\<close>
  "falsy v = (case v of None \<Rightarrow> True | Some s \<Rightarrow> s = [])"

definition charCodeAt0 :: "code_unit \<Rightarrow> int" where
  "charCodeAt0 char = uint char"

definition is_digit :: "code_unit \<Rightarrow> bool" where
  \<comment> \<open>the class \<^verbatim>\<open>\d\<close> of a regular expression without flags: the units of 0 to 9\<close>
  "is_digit c = (48 \<le> c \<and> c \<le> 57)"

definition match_digits :: "js_string \<Rightarrow> js_string option" where
  \<comment> \<open>\<^verbatim>\<open>s.match(/\d+/)?.[0]\<close>: the leftmost, longest run of digits; \<open>None\<close> when
      there is no digit (the match is \<^verbatim>\<open>null\<close> and the chain gives \<^verbatim>\<open>undefined\<close>)\<close>
  "match_digits s =
     (case dropWhile (\<lambda>c. \<not> is_digit c) s of
        [] \<Rightarrow> None
      | d # r \<Rightarrow> Some (takeWhile is_digit (d # r)))"

fun js_includes :: "js_string \<Rightarrow> js_string \<Rightarrow> bool" where
  \<comment> \<open>\<^verbatim>\<open>s.includes(p)\<close>: \<open>p\<close> occurs in \<open>s\<close> as a contiguous block\<close>
  "js_includes [] p = (p = [])"
| "js_includes (c # s) p = (take (length p) (c # s) = p \<or> js_includes s p)"

definition js_rem :: "int \<Rightarrow> int \<Rightarrow> int" where
  \<comment> \<open>\<^verbatim>\<open>a % b\<close> on integral numbers: the remainder takes the sign of the dividend\<close>
  "js_rem a b = (if a < 0 then - ((- a) mod \<bar>b\<bar>) else a mod \<bar>b\<bar>)"

definition Math_round :: "rat \<Rightarrow> int" where
  \<comment> \<open>\<^verbatim>\<open>Math.round\<close>: the nearest integer, a tie going up\<close>
  "Math_round x = \<lfloor>x + 1 / 2\<rfloor>"

definition Math_max :: "rat \<Rightarrow> rat \<Rightarrow> rat" where
  "Math_max a b = (if a < b then b else a)"

definition Math_min :: "rat \<Rightarrow> rat \<Rightarrow> rat" where
  "Math_min a b = (if b < a then b else a)"

text \<open>
  Numbers are IEEE doubles in the source. The seed, the remainders, the base health and
  everything computed from them for the health score are integers far below \<open>2 ^ 53\<close> (the
  sum of the code units of a string an engine can hold stays below it), and their products
  with 10 and the quotients of those by 10 are exact in doubles; they are modelled as \<open>int\<close>
  and \<open>rat\<close>. The sensor fields that carry decimal fractions (\<open>battery_voltage\<close>,
  \<open>vibration_level\<close>, \<open>prediction_risk\<close>) are modelled in exact rational arithmetic, which is
  the decimal the rounded double denotes.
\<close>

subsection \<open>Telemetry records\<close>

text \<open>
  A record of the view's \<open>telemetry\<close> state. It comes from the backend or from
  \<open>generateSampleTelemetry\<close>; \<open>getLatestHealthScore\<close> tests \<open>health_score\<close> against
  \<^verbatim>\<open>undefined\<close> and \<^verbatim>\<open>null\<close>, so that field is optional. \<open>timestamp\<close> is the instant
  in milliseconds since the epoch, which \<^verbatim>\<open>toISOString()\<close> prints.
\<close>

record telemetry_record =
  vin :: js_string
  timestamp :: int
  engine_temperature :: rat
  oil_pressure :: rat
  vibration_level :: rat
  battery_voltage :: rat
  speed :: int
  mileage :: int
  health_score :: "rat option"
  prediction_risk :: rat
  error_codes :: "string list"
  anomaly_detected :: bool

text \<open>The two-field object that \<open>generateSampleTelemetryForHealth\<close> returns.\<close>

record health_sample =
  sample_health_score :: rat
  sample_timestamp :: int

subsection \<open>VehicleMonitoring.jsx: getLatestHealthScore\<close>

text \<open>
  The function closes over the view's \<open>telemetry\<close> state, here its first argument. The
  parameter is called \<open>v\<close> because \<open>vin\<close> is a field of the record. Both copies of the
  fallback computation (lines 123-136 and 145-157) are written out. \<open>telemetry ! 0\<close> is read
  only where the list is not empty.
\<close>

definition getLatestHealthScore :: "telemetry_record list \<Rightarrow> js_string option \<Rightarrow> rat" where
  "getLatestHealthScore telemetry v =
     (if falsy v \<or> length telemetry = 0 then
        (let vinNumber = (case v of None \<Rightarrow> js_str ''001''
                          | Some s \<Rightarrow> (case match_digits s of None \<Rightarrow> js_str ''001'' | Some d \<Rightarrow> d));
             baseHealth =
               (if vinNumber = js_str ''001'' \<or> (case v of None \<Rightarrow> False | Some s \<Rightarrow> js_includes s (js_str ''VIN001''))
                then 48
                else if vinNumber = js_str ''002'' \<or> (case v of None \<Rightarrow> False | Some s \<Rightarrow> js_includes s (js_str ''VIN002''))
                then 72
                else 82);
             vinSeed = (case v of None \<Rightarrow> 0
                        | Some s \<Rightarrow> (let r = foldl (\<lambda>acc char. acc + charCodeAt0 char) 0 s
                                     in if r = 0 then 0 else r));
             variation = js_rem vinSeed 7 - 3;
             healthScore = Math_max 30 (Math_min 100 (baseHealth + of_int variation))
         in of_int (Math_round (healthScore * 10)) / 10)
      else
        (let latest = telemetry ! 0
         in case health_score latest of
              Some h \<Rightarrow> h
            | None \<Rightarrow>
               (let vinNumber = (case v of None \<Rightarrow> js_str ''001''
                                 | Some s \<Rightarrow> (case match_digits s of None \<Rightarrow> js_str ''001'' | Some d \<Rightarrow> d));
                    baseHealth =
                      (if vinNumber = js_str ''001'' \<or> (case v of None \<Rightarrow> False | Some s \<Rightarrow> js_includes s (js_str ''VIN001''))
                       then 48
                       else if vinNumber = js_str ''002'' \<or> (case v of None \<Rightarrow> False | Some s \<Rightarrow> js_includes s (js_str ''VIN002''))
                       then 72
                       else 82);
                    vinSeed = (case v of None \<Rightarrow> 0
                               | Some s \<Rightarrow> (let r = foldl (\<lambda>acc char. acc + charCodeAt0 char) 0 s
                                            in if r = 0 then 0 else r));
                    variation = js_rem vinSeed 7 - 3;
                    healthScore = Math_max 30 (Math_min 100 (baseHealth + of_int variation))
                in of_int (Math_round (healthScore * 10)) / 10)))"

subsection \<open>CustomerDashboard.jsx: generateSampleTelemetryForHealth\<close>

text \<open>
  \<open>now\<close> is the reading of the clock, \<^verbatim>\<open>new Date()\<close>, in milliseconds. Past the
  guard \<^verbatim>\<open>if (!vin) return ...\<close> the argument is a string that is not empty, which
  \<open>the v\<close> reads.
\<close>

definition generateSampleTelemetryForHealth :: "int \<Rightarrow> js_string option \<Rightarrow> health_sample" where
  "generateSampleTelemetryForHealth now v =
     (if falsy v then \<lparr>sample_health_score = 75, sample_timestamp = now\<rparr>
      else
        (let s = the v;
             vinNumber = (case match_digits s of None \<Rightarrow> js_str ''001'' | Some d \<Rightarrow> d);
             baseHealth =
               (if vinNumber = js_str ''001'' \<or> js_includes s (js_str ''VIN001'') then 48
                else if vinNumber = js_str ''002'' \<or> js_includes s (js_str ''VIN002'') then 72
                else 82);
             vinSeed = foldl (\<lambda>acc char. acc + charCodeAt0 char) 0 s;
             variation = js_rem vinSeed 7 - 3;
             healthScore = Math_max 30 (Math_min 100 (baseHealth + of_int variation))
         in \<lparr>sample_health_score = of_int (Math_round (healthScore * 10)) / 10,
             sample_timestamp = now\<rparr>))"

subsection \<open>VehicleMonitoring.jsx: generateSampleTelemetry\<close>

text \<open>
  The body of the \<^verbatim>\<open>for\<close> loop (lines 182-233) builds the sample of index \<open>i\<close> from the
  constants computed before the loop.
\<close>

definition loop_body :: "int \<Rightarrow> js_string \<Rightarrow> rat \<Rightarrow> int \<Rightarrow> nat \<Rightarrow> telemetry_record" where
  "loop_body now v baseHealth vinSeed i =
     (let timestamp' = now - int i * 60000;
          variation = js_rem (vinSeed + int i) 7 - 3;
          healthScore = Math_max 30 (Math_min 100 (baseHealth + of_int variation));
          (engineTemp, oilPressure, batteryVoltage, vibrationLevel,
           errorCodes, anomalyDetected, predictionRisk) =
            (if healthScore < 50 then
               (95 + of_int (js_rem (vinSeed + int i) 8),
                28 + of_int (js_rem (vinSeed + int i) 5),
                119 / 10 + of_int (js_rem (vinSeed + int i) 3) * (1 / 10),
                85 / 100 + of_int (js_rem (vinSeed + int i) 2) * (1 / 10),
                [''P0300'', ''P0171''],
                True,
                65 / 100 + of_int (js_rem (vinSeed + int i) 10) * (1 / 100))
             else if healthScore < 70 then
               (88 + of_int (js_rem (vinSeed + int i) 6),
                32 + of_int (js_rem (vinSeed + int i) 6),
                122 / 10 + of_int (js_rem (vinSeed + int i) 3) * (1 / 10),
                65 / 100 + of_int (js_rem (vinSeed + int i) 2) * (1 / 10),
                [],
                js_rem (vinSeed + int i) 3 = 0,
                35 / 100 + of_int (js_rem (vinSeed + int i) 10) * (1 / 100))
             else
               (85 + of_int (js_rem (vinSeed + int i) 5),
                38 + of_int (js_rem (vinSeed + int i) 5),
                126 / 10 + of_int (js_rem (vinSeed + int i) 2) * (1 / 10),
                55 / 100 + of_int (js_rem (vinSeed + int i) 2) * (5 / 100),
                [],
                False,
                15 / 100 + of_int (js_rem (vinSeed + int i) 5) * (1 / 100)))
      in \<lparr>vin = v,
          timestamp = timestamp',
          engine_temperature = of_int (Math_round (engineTemp * 10)) / 10,
          oil_pressure = of_int (Math_round (oilPressure * 10)) / 10,
          vibration_level = of_int (Math_round (vibrationLevel * 100)) / 100,
          battery_voltage = of_int (Math_round (batteryVoltage * 100)) / 100,
          speed = 40 + js_rem (vinSeed + int i) 30,
          mileage = 15000 + int i * 10,
          health_score = Some (of_int (Math_round (healthScore * 10)) / 10),
          prediction_risk = of_int (Math_round (predictionRisk * 1000)) / 1000,
          error_codes = errorCodes,
          anomaly_detected = anomalyDetected\<rparr>)"

text \<open>
  The loop \<^verbatim>\<open>for (let i = 0; i < 20; i++) data.push(...)\<close>, with its bound as the
  parameter \<open>n\<close>; the source runs it with \<open>n = 20\<close>.
\<close>

function sample_loop ::
  "int \<Rightarrow> js_string \<Rightarrow> rat \<Rightarrow> int \<Rightarrow> nat \<Rightarrow> nat \<Rightarrow> telemetry_record list \<Rightarrow> telemetry_record list" where
  "sample_loop now v baseHealth vinSeed n i data =
     (if i < n
      then sample_loop now v baseHealth vinSeed n (Suc i) (data @ [loop_body now v baseHealth vinSeed i])
      else data)"
  by pat_completeness auto
termination
  by (relation "measure (\<lambda>(now, v, baseHealth, vinSeed, n, i, data). n - i)") auto

declare sample_loop.simps [simp del]

text \<open>
  \<open>sampleSeries n\<close> is the whole function with the loop bound \<open>n\<close>. \<^verbatim>\<open>vin.match\<close> on a
  nullish \<open>vin\<close> raises a \<^verbatim>\<open>TypeError\<close>: this function has no optional chaining.
\<close>

definition sampleSeries :: "nat \<Rightarrow> int \<Rightarrow> js_string option \<Rightarrow> js_error + telemetry_record list" where
  "sampleSeries n now v =
     (case v of
        None \<Rightarrow> Inl TypeError
      | Some s \<Rightarrow>
         (let vinNumber = (case match_digits s of None \<Rightarrow> js_str ''001'' | Some d \<Rightarrow> d);
              baseHealth =
                (if vinNumber = js_str ''001'' \<or> js_includes s (js_str ''VIN001'') then 48
                 else if vinNumber = js_str ''002'' \<or> js_includes s (js_str ''VIN002'') then 72
                 else 82);
              vinSeed = foldl (\<lambda>acc char. acc + charCodeAt0 char) 0 s;
              data = sample_loop now s baseHealth vinSeed n 0 []
          in Inr (rev data)))"

definition generateSampleTelemetry :: "int \<Rightarrow> js_string option \<Rightarrow> js_error + telemetry_record list" where
  "generateSampleTelemetry now v = sampleSeries 20 now v"

subsection \<open>The values bound before the clamp\<close>

text \<open>
  Every copy binds \<^verbatim>\<open>baseHealth\<close> and \<^verbatim>\<open>vinSeed\<close> by the same two expressions. The
  lemmas name the values of these expressions for a string \<open>s\<close>; each copy is then shown
  to compute them.
\<close>

definition base_of :: "js_string \<Rightarrow> int" where
  "base_of s =
     (let vinNumber = (case match_digits s of None \<Rightarrow> js_str ''001'' | Some d \<Rightarrow> d)
      in if vinNumber = js_str ''001'' \<or> js_includes s (js_str ''VIN001'') then 48
         else if vinNumber = js_str ''002'' \<or> js_includes s (js_str ''VIN002'') then 72
         else 82)"

definition seed_of :: "js_string \<Rightarrow> int" where
  "seed_of s = foldl (\<lambda>acc char. acc + charCodeAt0 char) 0 s"

section \<open>Properties\<close>

subsection \<open>Arithmetic of the score\<close>

lemma foldl_codes_nonneg: "0 \<le> a \<Longrightarrow> 0 \<le> foldl (\<lambda>acc char. acc + charCodeAt0 char) a s"
  by (induction s arbitrary: a) (simp_all add: charCodeAt0_def)

lemma seed_of_nonneg: "0 \<le> seed_of s"
  by (simp add: seed_of_def foldl_codes_nonneg)

lemma base_of_cases: "base_of s = 48 \<or> base_of s = 72 \<or> base_of s = 82"
  by (simp add: base_of_def Let_def)

lemma js_rem_nonneg: "0 \<le> a \<Longrightarrow> 0 < b \<Longrightarrow> js_rem a b = a mod b"
  by (simp add: js_rem_def)

lemma round_tenth: "of_int (Math_round (of_int k * 10)) / 10 = (of_int k :: rat)"
proof -
  have "\<lfloor>(of_int (k * 10) :: rat) + 1 / 2\<rfloor> = k * 10"
    by (rule floor_unique) simp_all
  then have "Math_round (of_int k * 10) = k * 10"
    by (simp add: Math_round_def)
  then show ?thesis by simp
qed

lemma clamp_id: "30 \<le> k \<Longrightarrow> k \<le> 100 \<Longrightarrow> Math_max 30 (Math_min 100 (of_int k)) = of_int k"
  by (simp add: Math_max_def Math_min_def)

lemma score_core:
  assumes "0 \<le> a" and "b = 48 \<or> b = 72 \<or> b = 82"
  shows "of_int (Math_round (Math_max 30 (Math_min 100 (of_int b + of_int (js_rem a 7 - 3))) * 10)) / 10
           = (of_int (b + a mod 7 - 3) :: rat)"
    and "Math_max 30 (Math_min 100 (of_int b + of_int (js_rem a 7 - 3))) = (of_int (b + a mod 7 - 3) :: rat)"
proof -
  have r: "js_rem a 7 = a mod 7" using assms(1) by (simp add: js_rem_nonneg)
  have m: "0 \<le> a mod 7" "a mod 7 < 7" by simp_all
  have e: "(of_int b + of_int (js_rem a 7 - 3) :: rat) = of_int (b + a mod 7 - 3)"
    by (simp add: r)
  have "30 \<le> b + a mod 7 - 3" "b + a mod 7 - 3 \<le> 100" using assms(2) m by linarith+
  then show c: "Math_max 30 (Math_min 100 (of_int b + of_int (js_rem a 7 - 3))) = (of_int (b + a mod 7 - 3) :: rat)"
    unfolding e by (rule clamp_id)
  show "of_int (Math_round (Math_max 30 (Math_min 100 (of_int b + of_int (js_rem a 7 - 3))) * 10)) / 10
           = (of_int (b + a mod 7 - 3) :: rat)"
    unfolding c by (rule round_tenth)
qed

lemma base_rat: "(if c1 then 48 else if c2 then 72 else (82::rat)) = of_int (if c1 then 48 else if c2 then 72 else 82)"
  by simp

lemma getLatest_fallback:
  "getLatestHealthScore [] (Some s) = of_int (base_of s + seed_of s mod 7 - 3)"
proof -
  have "getLatestHealthScore [] (Some s) =
     of_int (Math_round (Math_max 30 (Math_min 100 (of_int (base_of s) + of_int (js_rem (seed_of s) 7 - 3))) * 10)) / 10"
    unfolding getLatestHealthScore_def base_of_def seed_of_def Let_def base_rat
    by simp
  then show ?thesis
    by (simp only: score_core(1) [OF seed_of_nonneg base_of_cases])
qed

lemma dashboard_nonempty:
  "s \<noteq> [] \<Longrightarrow> sample_health_score (generateSampleTelemetryForHealth now (Some s))
     = of_int (base_of s + seed_of s mod 7 - 3)"
proof -
  assume "s \<noteq> []"
  then have "sample_health_score (generateSampleTelemetryForHealth now (Some s)) =
     of_int (Math_round (Math_max 30 (Math_min 100 (of_int (base_of s) + of_int (js_rem (seed_of s) 7 - 3))) * 10)) / 10"
    unfolding generateSampleTelemetryForHealth_def base_of_def seed_of_def Let_def base_rat falsy_def
    by simp
  then show ?thesis
    by (simp only: score_core(1) [OF seed_of_nonneg base_of_cases])
qed


subsection \<open>The loop and its body\<close>

lemma sample_loop_eq:
  "sample_loop now v b sd n i data = data @ map (loop_body now v b sd) [i..<n]"
proof (induction now v b sd n i data rule: sample_loop.induct)
  case (1 now v b sd n i data)
  show ?case
  proof (cases "i < n")
    case True
    then have "sample_loop now v b sd n i data
                 = sample_loop now v b sd n (Suc i) (data @ [loop_body now v b sd i])"
      by (subst sample_loop.simps) simp
    also have "\<dots> = (data @ [loop_body now v b sd i]) @ map (loop_body now v b sd) [Suc i..<n]"
      using True by (rule "1.IH")
    also have "\<dots> = data @ map (loop_body now v b sd) [i..<n]"
      using True by (simp add: upt_conv_Cons)
    finally show ?thesis .
  next
    case False
    then show ?thesis by (subst sample_loop.simps) simp
  qed
qed

lemma sampleSeries_Some:
  "sampleSeries n now (Some s)
     = Inr (rev (map (loop_body now s (of_int (base_of s)) (seed_of s)) [0..<n]))"
  unfolding sampleSeries_def base_of_def seed_of_def Let_def base_rat
  by (simp add: sample_loop_eq)

lemma loop_body_timestamp: "timestamp (loop_body now v b sd i) = now - int i * 60000"
  unfolding loop_body_def Let_def by (simp split: prod.splits)

lemma loop_body_health:
  assumes "0 \<le> sd" and "b = 48 \<or> b = 72 \<or> b = 82"
  shows "health_score (loop_body now v (of_int b) sd i) = Some (of_int (b + (sd + int i) mod 7 - 3))"
proof -
  have a: "0 \<le> sd + int i" using assms(1) by simp
  show ?thesis
    unfolding loop_body_def Let_def score_core(2) [OF a assms(2)] round_tenth
    by (simp split: prod.splits)
qed

lemma loop_body_band:
  assumes "0 \<le> sd" and "b = 48 \<or> b = 72 \<or> b = 82"
  shows "anomaly_detected (loop_body now v (of_int b) sd i)
           = (if b + (sd + int i) mod 7 - 3 < 50 then True
              else if b + (sd + int i) mod 7 - 3 < 70 then js_rem (sd + int i) 3 = 0
              else False)"
    and "error_codes (loop_body now v (of_int b) sd i)
           = (if b + (sd + int i) mod 7 - 3 < 50 then [''P0300'', ''P0171''] else [])"
proof -
  have a: "0 \<le> sd + int i" using assms(1) by simp
  have lt: "((of_int k :: rat) < 50) = (k < 50)" "((of_int k :: rat) < 70) = (k < 70)" for k :: int
    by linarith+
  show "anomaly_detected (loop_body now v (of_int b) sd i)
           = (if b + (sd + int i) mod 7 - 3 < 50 then True
              else if b + (sd + int i) mod 7 - 3 < 70 then js_rem (sd + int i) 3 = 0
              else False)"
    unfolding loop_body_def Let_def score_core(2) [OF a assms(2)] lt
    by (simp split: prod.splits)
  show "error_codes (loop_body now v (of_int b) sd i)
           = (if b + (sd + int i) mod 7 - 3 < 50 then [''P0300'', ''P0171''] else [])"
    unfolding loop_body_def Let_def score_core(2) [OF a assms(2)] lt
    by (simp split: prod.splits)
qed

subsection \<open>The copies of the fallback computation\<close>

lemmas literal_eval = js_str_def match_digits_def is_digit_def charCodeAt0_def base_of_def seed_of_def

lemma getLatest_computed:
  assumes "s = [] \<or> telemetry = [] \<or> health_score (telemetry ! 0) = None"
  shows "getLatestHealthScore telemetry (Some s) = of_int (base_of s + seed_of s mod 7 - 3)"
proof -
  have "getLatestHealthScore telemetry (Some s) =
     of_int (Math_round (Math_max 30 (Math_min 100 (of_int (base_of s) + of_int (js_rem (seed_of s) 7 - 3))) * 10)) / 10"
    using assms
    unfolding getLatestHealthScore_def base_of_def seed_of_def Let_def base_rat falsy_def
    by auto
  then show ?thesis
    by (simp only: score_core(1) [OF seed_of_nonneg base_of_cases])
qed

lemma getLatest_head:
  "s \<noteq> [] \<Longrightarrow> telemetry \<noteq> [] \<Longrightarrow> health_score (telemetry ! 0) = Some h
     \<Longrightarrow> getLatestHealthScore telemetry (Some s) = h"
  by (simp add: getLatestHealthScore_def falsy_def Let_def)

lemma dashboard_clock_free:
  "sample_health_score (generateSampleTelemetryForHealth now1 v)
     = sample_health_score (generateSampleTelemetryForHealth now2 v)"
  by (simp add: generateSampleTelemetryForHealth_def Let_def)

text \<open>
  For a string that is not empty the monitoring view and the customer dashboard compute the
  same score.
\<close>

lemma views_agree_nonempty:
  "s \<noteq> [] \<Longrightarrow> getLatestHealthScore [] (Some s)
       = sample_health_score (generateSampleTelemetryForHealth now (Some s))"
  by (simp add: getLatest_fallback dashboard_nonempty)

text \<open>
  Claim C1: for every VIN string \<open>v\<close>, the empty string included, the fallback score of
  \<open>getLatestHealthScore\<close> with no telemetry equals the \<open>health_score\<close> of
  \<open>generateSampleTelemetryForHealth\<close>. The two copies differ at the empty string: the
  monitoring view runs the computation with its defaults (digit run \<^verbatim>\<open>'001'\<close>, seed 0) and
  shows 45, the dashboard returns the constant 75 from its guard \<^verbatim>\<open>if (!vin)\<close>.
\<close>

theorem empty_vin_views_disagree:
  "getLatestHealthScore [] (Some []) = 45
   \<and> sample_health_score (generateSampleTelemetryForHealth now (Some [])) = 75"
  by (simp add: getLatest_fallback literal_eval generateSampleTelemetryForHealth_def falsy_def)

text \<open>
  Claim C4: for the VIN \<^verbatim>\<open>"VIN001"\<close> the digit run is \<^verbatim>\<open>"001"\<close> (base health 48), the
  seed is \<open>86 + 73 + 78 + 48 + 48 + 49 = 382\<close>, the variation is \<open>382 mod 7 - 3 = 1\<close> and
  the health score is 49, in both views.
\<close>

theorem health_score_VIN001:
  "match_digits (js_str ''VIN001'') = Some (js_str ''001'')
   \<and> foldl (\<lambda>acc char. acc + charCodeAt0 char) 0 (js_str ''VIN001'') = 86 + 73 + 78 + 48 + 48 + 49
   \<and> foldl (\<lambda>acc char. acc + charCodeAt0 char) 0 (js_str ''VIN001'') = 382
   \<and> js_rem 382 7 = 4
   \<and> js_rem 382 7 - 3 = 1
   \<and> getLatestHealthScore [] (Some (js_str ''VIN001'')) = 48 + 1
   \<and> getLatestHealthScore [] (Some (js_str ''VIN001'')) = 49
   \<and> sample_health_score (generateSampleTelemetryForHealth now (Some (js_str ''VIN001''))) = 49"
proof -
  have "js_str ''VIN001'' \<noteq> []" by (simp add: js_str_def)
  then have "sample_health_score (generateSampleTelemetryForHealth now (Some (js_str ''VIN001''))) = 49"
    by (simp add: dashboard_nonempty) (simp add: literal_eval)
  moreover have "getLatestHealthScore [] (Some (js_str ''VIN001'')) = 49"
    by (simp add: getLatest_fallback literal_eval)
  moreover have "foldl (\<lambda>acc char. acc + charCodeAt0 char) 0 (js_str ''VIN001'') = 382"
    by (simp add: literal_eval)
  moreover have "match_digits (js_str ''VIN001'') = Some (js_str ''001'')"
    by (simp add: literal_eval)
  moreover have "js_rem 382 7 = 4" by (simp add: js_rem_def)
  ultimately show ?thesis by simp
qed

text \<open>
  Claim C6: for every VIN string the current health score lies between 30 and 100, in the
  monitoring view (no telemetry) and in the customer dashboard.
\<close>

theorem health_score_bounds:
  "30 \<le> getLatestHealthScore [] (Some s) \<and> getLatestHealthScore [] (Some s) \<le> 100
   \<and> 30 \<le> sample_health_score (generateSampleTelemetryForHealth now (Some s))
   \<and> sample_health_score (generateSampleTelemetryForHealth now (Some s)) \<le> 100"
proof -
  have m: "0 \<le> seed_of s mod 7" "seed_of s mod 7 < 7" by simp_all
  have k: "30 \<le> base_of s + seed_of s mod 7 - 3" "base_of s + seed_of s mod 7 - 3 \<le> 100"
    using base_of_cases [of s] m by linarith+
  have g: "30 \<le> getLatestHealthScore [] (Some s) \<and> getLatestHealthScore [] (Some s) \<le> 100"
    unfolding getLatest_fallback using k by linarith
  show ?thesis
  proof (cases "s = []")
    case True
    then show ?thesis using g
      by (simp add: generateSampleTelemetryForHealth_def falsy_def)
  next
    case False
    then show ?thesis using g k
      unfolding dashboard_nonempty [OF False] by linarith
  qed
qed

text \<open>
  Claim C8: the score of \<^verbatim>\<open>"DEMO_VIN_001"\<close> lies in \<open>[45, 51]\<close> (it is 49), the score of
  \<^verbatim>\<open>"VIN002"\<close> lies in \<open>[69, 75]\<close> (it is 74), and the score of \<^verbatim>\<open>"VIN999"\<close> lies in
  \<open>[79, 85]\<close> (it is 81: the digit run \<^verbatim>\<open>"999"\<close> selects the default base 82).
\<close>

theorem tier_literals:
  "getLatestHealthScore [] (Some (js_str ''DEMO_VIN_001'')) = 49
   \<and> 45 \<le> getLatestHealthScore [] (Some (js_str ''DEMO_VIN_001''))
   \<and> getLatestHealthScore [] (Some (js_str ''DEMO_VIN_001'')) \<le> 51
   \<and> getLatestHealthScore [] (Some (js_str ''VIN002'')) = 74
   \<and> 69 \<le> getLatestHealthScore [] (Some (js_str ''VIN002''))
   \<and> getLatestHealthScore [] (Some (js_str ''VIN002'')) \<le> 75
   \<and> getLatestHealthScore [] (Some (js_str ''VIN999'')) = 81
   \<and> 79 \<le> getLatestHealthScore [] (Some (js_str ''VIN999''))
   \<and> getLatestHealthScore [] (Some (js_str ''VIN999'')) \<le> 85"
proof -
  have "getLatestHealthScore [] (Some (js_str ''DEMO_VIN_001'')) = 49"
    by (simp add: getLatest_fallback literal_eval)
  moreover have "getLatestHealthScore [] (Some (js_str ''VIN002'')) = 74"
    by (simp add: getLatest_fallback literal_eval)
  moreover have "getLatestHealthScore [] (Some (js_str ''VIN999'')) = 81"
    by (simp add: getLatest_fallback literal_eval)
  ultimately show ?thesis by simp
qed

text \<open>
  Claim C2: the current health score is a function of the VIN string alone. Whenever
  \<open>getLatestHealthScore\<close> runs the computation (the VIN is empty, or there is no telemetry,
  or the first record carries no \<open>health_score\<close>), its result is the same in any two
  telemetry states; the score of \<open>generateSampleTelemetryForHealth\<close> is the same at any
  two readings of the clock.
\<close>

theorem health_score_deterministic:
  assumes "s = [] \<or> telemetry1 = [] \<or> health_score (telemetry1 ! 0) = None"
      and "s = [] \<or> telemetry2 = [] \<or> health_score (telemetry2 ! 0) = None"
  shows "getLatestHealthScore telemetry1 (Some s) = getLatestHealthScore telemetry2 (Some s)
         \<and> sample_health_score (generateSampleTelemetryForHealth now1 (Some s))
             = sample_health_score (generateSampleTelemetryForHealth now2 (Some s))"
  using assms by (simp add: getLatest_computed dashboard_clock_free [of now1 _ now2])

theorem health_score_deterministic_witness:
  "(js_str ''VIN001'' = [] \<or> ([] :: telemetry_record list) = [] \<or> health_score ([] ! 0) = None)
   \<and> (js_str ''VIN001'' = []
        \<or> [loop_body 0 [] 48 0 0 \<lparr>health_score := None\<rparr>] = []
        \<or> health_score ([loop_body 0 [] 48 0 0 \<lparr>health_score := None\<rparr>] ! 0) = None)
   \<and> getLatestHealthScore [] (Some (js_str ''VIN001''))
        = getLatestHealthScore [loop_body 0 [] 48 0 0 \<lparr>health_score := None\<rparr>] (Some (js_str ''VIN001''))
   \<and> sample_health_score (generateSampleTelemetryForHealth 0 (Some (js_str ''VIN001'')))
        = sample_health_score (generateSampleTelemetryForHealth 60000 (Some (js_str ''VIN001'')))"
  using health_score_deterministic
          [of "js_str ''VIN001''" "[]" "[loop_body 0 [] 48 0 0 \<lparr>health_score := None\<rparr>]" 0 60000]
  by simp

subsection \<open>The synthetic series\<close>

lemma rev_map_upt_nth: "k < n \<Longrightarrow> rev (map f [0..<n]) ! k = f (n - Suc k)"
  by (simp add: rev_nth)

lemma rev_map_upt_last: "0 < n \<Longrightarrow> last (rev (map f [0..<n])) = f 0"
  by (simp add: last_rev hd_map upt_conv_Cons)

lemma sample_health:
  "health_score (loop_body now s (of_int (base_of s)) (seed_of s) i)
     = Some (of_int (base_of s + (seed_of s + int i) mod 7 - 3))"
  by (rule loop_body_health [OF seed_of_nonneg base_of_cases])

lemma sample_band:
  fixes now s i
  defines "x \<equiv> loop_body now s (of_int (base_of s)) (seed_of s) i"
    and "k \<equiv> base_of s + (seed_of s + int i) mod 7 - 3"
  shows "health_score x = Some (of_int k)"
    and "k < 50 \<Longrightarrow> anomaly_detected x \<and> error_codes x = [''P0300'', ''P0171'']"
    and "70 \<le> k \<Longrightarrow> \<not> anomaly_detected x \<and> error_codes x = []"
  unfolding x_def k_def
  by (simp_all add: sample_health loop_body_band [OF seed_of_nonneg base_of_cases])

lemma series_eq:
  "generateSampleTelemetry now (Some s)
     = Inr (rev (map (loop_body now s (of_int (base_of s)) (seed_of s)) [0..<20]))"
  by (simp add: generateSampleTelemetry_def sampleSeries_Some)

lemma series_newest:
  assumes "generateSampleTelemetry now (Some s) = Inr series"
  shows "series \<noteq> []"
    and "health_score (last series) = Some (of_int (base_of s + seed_of s mod 7 - 3))"
proof -
  let ?f = "loop_body now s (of_int (base_of s)) (seed_of s)"
  have e: "series = rev (map ?f [0..<20])"
    using assms unfolding series_eq by simp
  have l: "last series = ?f 0"
    unfolding e by (rule rev_map_upt_last) simp
  have "length series = 20" unfolding e by simp
  then show "series \<noteq> []" by auto
  show "health_score (last series) = Some (of_int (base_of s + seed_of s mod 7 - 3))"
    unfolding l by (simp add: sample_health)
qed

lemma generateSampleTelemetry_nullish: "generateSampleTelemetry now None = Inl TypeError"
  by (simp add: generateSampleTelemetry_def sampleSeries_def)

lemma score_range: "45 \<le> base_of s + a mod 7 - 3 \<and> base_of s + a mod 7 - 3 \<le> 85"
proof -
  have "0 \<le> a mod 7" "a mod 7 < 7" by simp_all
  then show ?thesis using base_of_cases [of s] by linarith
qed

text \<open>
  Claim C3: for every VIN string and every loop bound \<open>n \<ge> 1\<close> (the source runs
  \<open>n = 20\<close>), the newest element of the series, which is its last element, generated with
  \<open>i = 0\<close> and carrying the greatest timestamp, has the health score that
  \<open>getLatestHealthScore\<close> computes in isolation.
\<close>

theorem newest_sample_is_current_score:
  assumes "1 \<le> n"
  shows "\<exists>series. sampleSeries n now (Some s) = Inr series
           \<and> length series = n
           \<and> timestamp (last series) = now
           \<and> (\<forall>x \<in> set series. timestamp x \<le> timestamp (last series))
           \<and> health_score (last series) = Some (getLatestHealthScore [] (Some s))"
proof -
  let ?f = "loop_body now s (of_int (base_of s)) (seed_of s)"
  let ?series = "rev (map ?f [0..<n])"
  have n: "0 < n" using assms by simp
  have l: "last ?series = ?f 0" using n by (rule rev_map_upt_last)
  have "sampleSeries n now (Some s) = Inr ?series" by (rule sampleSeries_Some)
  moreover have "length ?series = n" by simp
  moreover have "timestamp (last ?series) = now"
    unfolding l by (simp add: loop_body_timestamp)
  moreover have "\<forall>x \<in> set ?series. timestamp x \<le> timestamp (last ?series)"
    unfolding l by (auto simp: loop_body_timestamp)
  moreover have "health_score (last ?series) = Some (getLatestHealthScore [] (Some s))"
    unfolding l by (simp add: sample_health getLatest_computed)
  ultimately show ?thesis by blast
qed

theorem newest_sample_is_current_score_witness:
  "(1::nat) \<le> 20
   \<and> (\<exists>series. generateSampleTelemetry 0 (Some (js_str ''VIN001'')) = Inr series
          \<and> length series = 20
          \<and> timestamp (last series) = 0
          \<and> health_score (last series) = Some 49)"
proof -
  have "getLatestHealthScore [] (Some (js_str ''VIN001'')) = 49"
    by (simp add: getLatest_computed literal_eval)
  then show ?thesis
    using newest_sample_is_current_score [of 20 0 "js_str ''VIN001''"]
    by (auto simp: generateSampleTelemetry_def)
qed

text \<open>
  Claim C5: in the series of 20 samples every sample with a health score below 50 has
  \<open>anomaly_detected\<close> set and the error codes \<^verbatim>\<open>["P0300","P0171"]\<close>, and every sample
  with a health score of at least 70 has \<open>anomaly_detected\<close> unset and no error code.
\<close>

theorem band_correlation:
  "\<exists>series. generateSampleTelemetry now (Some s) = Inr series
     \<and> length series = 20
     \<and> (\<forall>x \<in> set series. \<exists>h. health_score x = Some h
            \<and> (h < 50 \<longrightarrow> anomaly_detected x \<and> error_codes x = [''P0300'', ''P0171''])
            \<and> (70 \<le> h \<longrightarrow> \<not> anomaly_detected x \<and> error_codes x = []))"
proof -
  let ?f = "loop_body now s (of_int (base_of s)) (seed_of s)"
  let ?series = "rev (map ?f [0..<20])"
  have "\<exists>h. health_score (?f i) = Some h
            \<and> (h < 50 \<longrightarrow> anomaly_detected (?f i) \<and> error_codes (?f i) = [''P0300'', ''P0171''])
            \<and> (70 \<le> h \<longrightarrow> \<not> anomaly_detected (?f i) \<and> error_codes (?f i) = [])" for i
  proof -
    let ?k = "base_of s + (seed_of s + int i) mod 7 - 3"
    have lo: "(of_int ?k :: rat) < 50 \<Longrightarrow> ?k < 50" by linarith
    have hi: "(70 :: rat) \<le> of_int ?k \<Longrightarrow> 70 \<le> ?k" by linarith
    show ?thesis
      using sample_band [where now = now and s = s and i = i] lo hi by blast
  qed
  then have "\<forall>x \<in> set ?series. \<exists>h. health_score x = Some h
            \<and> (h < 50 \<longrightarrow> anomaly_detected x \<and> error_codes x = [''P0300'', ''P0171''])
            \<and> (70 \<le> h \<longrightarrow> \<not> anomaly_detected x \<and> error_codes x = [])"
    by auto
  moreover have "length ?series = 20" by simp
  ultimately show ?thesis using series_eq [of now s] by blast
qed

theorem band_correlation_witness:
  "(\<exists>series. generateSampleTelemetry 0 (Some (js_str ''VIN001'')) = Inr series
       \<and> last series \<in> set series
       \<and> health_score (last series) = Some 49 \<and> (49 :: rat) < 50
       \<and> anomaly_detected (last series) \<and> error_codes (last series) = [''P0300'', ''P0171''])
   \<and> (\<exists>series. generateSampleTelemetry 0 (Some (js_str ''VIN999'')) = Inr series
       \<and> last series \<in> set series
       \<and> health_score (last series) = Some 81 \<and> (70 :: rat) \<le> 81
       \<and> \<not> anomaly_detected (last series) \<and> error_codes (last series) = [])"
proof -
  have newest: "last series \<in> set series
      \<and> health_score (last series) = Some (of_int (base_of v + seed_of v mod 7 - 3))"
    if "generateSampleTelemetry 0 (Some v) = Inr series" for v series
    using series_newest [OF that] by simp
  have a: "(of_int (base_of (js_str ''VIN001'') + seed_of (js_str ''VIN001'') mod 7 - 3) :: rat) = 49"
    by (simp add: literal_eval)
  have b: "(of_int (base_of (js_str ''VIN999'') + seed_of (js_str ''VIN999'') mod 7 - 3) :: rat) = 81"
    by (simp add: literal_eval)
  obtain xs where xs: "generateSampleTelemetry 0 (Some (js_str ''VIN001'')) = Inr xs"
      "\<forall>x \<in> set xs. \<exists>h. health_score x = Some h
            \<and> (h < 50 \<longrightarrow> anomaly_detected x \<and> error_codes x = [''P0300'', ''P0171''])
            \<and> (70 \<le> h \<longrightarrow> \<not> anomaly_detected x \<and> error_codes x = [])"
    using band_correlation [of 0 "js_str ''VIN001''"] by blast
  obtain ys where ys: "generateSampleTelemetry 0 (Some (js_str ''VIN999'')) = Inr ys"
      "\<forall>x \<in> set ys. \<exists>h. health_score x = Some h
            \<and> (h < 50 \<longrightarrow> anomaly_detected x \<and> error_codes x = [''P0300'', ''P0171''])
            \<and> (70 \<le> h \<longrightarrow> \<not> anomaly_detected x \<and> error_codes x = [])"
    using band_correlation [of 0 "js_str ''VIN999''"] by blast
  have x: "last xs \<in> set xs" "health_score (last xs) = Some 49"
    using newest [OF xs(1)] a by simp_all
  have y: "last ys \<in> set ys" "health_score (last ys) = Some 81"
    using newest [OF ys(1)] b by simp_all
  have "anomaly_detected (last xs) \<and> error_codes (last xs) = [''P0300'', ''P0171'']"
    using xs(2) x by fastforce
  moreover have "\<not> anomaly_detected (last ys) \<and> error_codes (last ys) = []"
    using ys(2) y by fastforce
  ultimately show ?thesis using xs(1) ys(1) x y by simp
qed

text \<open>
  Claim C7: the series has exactly 20 samples in ascending order of timestamp: element
  \<open>k\<close> carries \<open>now - (19 - k)\<close> minutes, consecutive elements are 60000 milliseconds
  apart, and the timestamps increase strictly.
\<close>

theorem series_shape:
  "\<exists>series. generateSampleTelemetry now (Some s) = Inr series
     \<and> length series = 20
     \<and> (\<forall>k<19. timestamp (series ! Suc k) = timestamp (series ! k) + 60000)
     \<and> (\<forall>k<20. timestamp (series ! k) = now - (19 - int k) * 60000)
     \<and> sorted_wrt (<) (map timestamp series)"
proof -
  let ?f = "loop_body now s (of_int (base_of s)) (seed_of s)"
  let ?series = "rev (map ?f [0..<20])"
  have t: "timestamp (?series ! k) = now - (19 - int k) * 60000" if "k < 20" for k
  proof -
    have "?series ! k = ?f (20 - Suc k)" using that by (rule rev_map_upt_nth)
    moreover have "int (20 - Suc k) = 19 - int k" using that by simp
    ultimately show ?thesis by (simp add: loop_body_timestamp)
  qed
  have step: "\<forall>k<19. timestamp (?series ! Suc k) = timestamp (?series ! k) + 60000"
  proof (intro allI impI)
    fix k :: nat
    assume "k < 19"
    then have "k < 20" "Suc k < 20" by simp_all
    then show "timestamp (?series ! Suc k) = timestamp (?series ! k) + 60000"
      by (simp add: t)
  qed
  have "sorted_wrt (<) (map timestamp ?series)"
    unfolding sorted_wrt_iff_nth_less
  proof (intro allI impI)
    fix i j :: nat
    assume "i < j" and "j < length (map timestamp ?series)"
    then have "i < 20" "j < 20" by simp_all
    then have "timestamp (?series ! i) = now - (19 - int i) * 60000"
      and "timestamp (?series ! j) = now - (19 - int j) * 60000"
      by (simp_all only: t)
    moreover have "map timestamp ?series ! i = timestamp (?series ! i)"
      using \<open>i < 20\<close> by (simp only: nth_map length_rev length_map length_upt)
    moreover have "map timestamp ?series ! j = timestamp (?series ! j)"
      using \<open>j < 20\<close> by (simp only: nth_map length_rev length_map length_upt)
    ultimately show "map timestamp ?series ! i < map timestamp ?series ! j"
      using \<open>i < j\<close> by simp
  qed
  moreover have "length ?series = 20" by simp
  moreover have "\<forall>k<20. timestamp (?series ! k) = now - (19 - int k) * 60000"
    using t by blast
  ultimately show ?thesis using step series_eq [of now s] by blast
qed

theorem series_shape_witness:
  "\<exists>series. generateSampleTelemetry 0 (Some (js_str ''VIN001'')) = Inr series
     \<and> length series = 20
     \<and> (0::nat) < 19
     \<and> timestamp (series ! Suc 0) = timestamp (series ! 0) + 60000
     \<and> timestamp (series ! 0) = - 1140000
     \<and> timestamp (series ! 19) = 0"
proof -
  obtain series where s: "generateSampleTelemetry 0 (Some (js_str ''VIN001'')) = Inr series"
      "length series = 20"
      "\<forall>k<19. timestamp (series ! Suc k) = timestamp (series ! k) + 60000"
      "\<forall>k<20. timestamp (series ! k) = 0 - (19 - int k) * 60000"
    using series_shape [of 0 "js_str ''VIN001''"] by blast
  have "timestamp (series ! Suc 0) = timestamp (series ! 0) + 60000" using s(3) by simp
  moreover have "timestamp (series ! 0) = - 1140000" using s(4) by simp
  moreover have "timestamp (series ! 19) = 0" using s(4) by simp
  ultimately show ?thesis using s(1,2) by simp
qed

text \<open>
  Claim C9: for every VIN string, the empty one and those without a digit included, the
  series generation returns a series (never the \<open>TypeError\<close> of a nullish argument) for
  every loop bound, and both health-score computations return a whole number between 45
  and 85. The loop terminates by the measure \<open>n - i\<close>; the health-score computations have
  no loop and no raising operation on a string.
\<close>

theorem synthesizer_total:
  "(\<exists>series. generateSampleTelemetry now (Some s) = Inr series \<and> length series = 20)
   \<and> (\<exists>series. sampleSeries n now (Some s) = Inr series \<and> length series = n)
   \<and> (\<exists>k::int. getLatestHealthScore [] (Some s) = of_int k \<and> 45 \<le> k \<and> k \<le> 85)
   \<and> (\<exists>k::int. sample_health_score (generateSampleTelemetryForHealth now (Some s)) = of_int k
          \<and> 45 \<le> k \<and> k \<le> 85)"
proof -
  have "\<exists>k::int. getLatestHealthScore [] (Some s) = of_int k \<and> 45 \<le> k \<and> k \<le> 85"
    unfolding getLatest_fallback using score_range by blast
  moreover have "\<exists>k::int. sample_health_score (generateSampleTelemetryForHealth now (Some s)) = of_int k
          \<and> 45 \<le> k \<and> k \<le> 85"
  proof (cases "s = []")
    case True
    have "(75 :: rat) = of_int 75" by simp
    then have "sample_health_score (generateSampleTelemetryForHealth now (Some s)) = of_int 75"
      using True by (simp add: generateSampleTelemetryForHealth_def falsy_def)
    then show ?thesis by (intro exI [of _ 75]) simp
  next
    case False
    show ?thesis
      unfolding dashboard_nonempty [OF False] using score_range by blast
  qed
  ultimately show ?thesis
    by (simp add: series_eq sampleSeries_Some)
qed

text \<open>
  Claim C10, as stated: for every VIN string, when the view's telemetry state holds the
  generated series, the displayed score is the score of the oldest sample and differs from
  the score computed in isolation. At the empty VIN the guard \<^verbatim>\<open>!vin\<close> of
  \<open>getLatestHealthScore\<close> takes the isolated computation although the state holds 20
  samples: the oldest sample has 50, the view shows 45.
\<close>

theorem empty_vin_latest_is_isolated:
  "generateSampleTelemetry 0 (Some []) = Inr (projr (generateSampleTelemetry 0 (Some [])))
   \<and> length (projr (generateSampleTelemetry 0 (Some []))) = 20
   \<and> health_score (projr (generateSampleTelemetry 0 (Some [])) ! 0) = Some 50
   \<and> getLatestHealthScore (projr (generateSampleTelemetry 0 (Some []))) (Some []) = 45
   \<and> getLatestHealthScore [] (Some []) = 45"
proof -
  let ?f = "loop_body 0 [] (of_int (base_of [])) (seed_of [])"
  have e: "generateSampleTelemetry 0 (Some []) = Inr (rev (map ?f [0..<20]))"
    by (rule series_eq)
  have "rev (map ?f [0..<20]) ! 0 = ?f (20 - Suc 0)"
    by (rule rev_map_upt_nth) simp
  then have "health_score (rev (map ?f [0..<20]) ! 0) = Some 50"
    by (simp add: sample_health) (simp add: literal_eval)
  moreover have "getLatestHealthScore t (Some []) = 45" for t
    by (simp add: getLatest_computed) (simp add: literal_eval)
  ultimately show ?thesis unfolding e by simp
qed

text \<open>
  Claim C10, amended: for every VIN string that is not empty, when the view's telemetry
  state holds the generated series, \<open>getLatestHealthScore\<close> returns the health score of
  element 0, the sample with the least timestamp (loop index 19), whose variation is
  \<open>(seed + 19) mod 7 - 3\<close>; it differs from the score computed in isolation, whose variation
  is \<open>seed mod 7 - 3\<close>.
\<close>

theorem displayed_latest_is_oldest:
  assumes "s \<noteq> []"
  shows "\<exists>telemetry. generateSampleTelemetry now (Some s) = Inr telemetry
           \<and> (\<forall>x \<in> set telemetry. timestamp (telemetry ! 0) \<le> timestamp x)
           \<and> health_score (telemetry ! 0) = Some (getLatestHealthScore telemetry (Some s))
           \<and> getLatestHealthScore telemetry (Some s) - getLatestHealthScore [] (Some s)
               = of_int (js_rem (foldl (\<lambda>acc char. acc + charCodeAt0 char) 0 s + 19) 7 - 3)
                 - of_int (js_rem (foldl (\<lambda>acc char. acc + charCodeAt0 char) 0 s) 7 - 3)
           \<and> getLatestHealthScore telemetry (Some s) \<noteq> getLatestHealthScore [] (Some s)"
proof -
  let ?f = "loop_body now s (of_int (base_of s)) (seed_of s)"
  let ?t = "rev (map ?f [0..<20])"
  have z: "?t ! 0 = ?f 19"
    using rev_map_upt_nth [of 0 20 ?f] by simp
  have ne: "?t \<noteq> []" by (simp add: upt_conv_Cons)
  have h: "health_score (?t ! 0) = Some (of_int (base_of s + (seed_of s + 19) mod 7 - 3))"
    unfolding z using sample_health [of now s 19] by simp
  have g: "getLatestHealthScore ?t (Some s) = of_int (base_of s + (seed_of s + 19) mod 7 - 3)"
    using assms ne h by (rule getLatest_head)
  have i: "getLatestHealthScore [] (Some s) = of_int (base_of s + seed_of s mod 7 - 3)"
    by (rule getLatest_fallback)
  have r: "js_rem (seed_of s + 19) 7 = (seed_of s + 19) mod 7" "js_rem (seed_of s) 7 = seed_of s mod 7"
    using seed_of_nonneg [of s] by (simp_all add: js_rem_nonneg)
  have d: "(seed_of s + 19) mod 7 \<noteq> seed_of s mod 7" by presburger
  have "\<forall>x \<in> set ?t. timestamp (?t ! 0) \<le> timestamp x"
    unfolding z by (auto simp: loop_body_timestamp)
  moreover have "health_score (?t ! 0) = Some (getLatestHealthScore ?t (Some s))"
    unfolding g by (rule h)
  moreover have "getLatestHealthScore ?t (Some s) - getLatestHealthScore [] (Some s)
               = of_int (js_rem (foldl (\<lambda>acc char. acc + charCodeAt0 char) 0 s + 19) 7 - 3)
                 - of_int (js_rem (foldl (\<lambda>acc char. acc + charCodeAt0 char) 0 s) 7 - 3)"
    unfolding g i seed_of_def [symmetric] r by simp
  moreover have "getLatestHealthScore ?t (Some s) \<noteq> getLatestHealthScore [] (Some s)"
    unfolding g i using d by simp
  ultimately show ?thesis using series_eq [of now s] by blast
qed

theorem displayed_latest_is_oldest_witness:
  "js_str ''VIN001'' \<noteq> []
   \<and> (\<exists>telemetry. generateSampleTelemetry 0 (Some (js_str ''VIN001'')) = Inr telemetry
          \<and> health_score (telemetry ! 0) = Some (getLatestHealthScore telemetry (Some (js_str ''VIN001'')))
          \<and> getLatestHealthScore telemetry (Some (js_str ''VIN001'')) = 47
          \<and> getLatestHealthScore [] (Some (js_str ''VIN001'')) = 49)"
proof -
  have ne: "js_str ''VIN001'' \<noteq> []" by (simp add: js_str_def)
  have i: "getLatestHealthScore [] (Some (js_str ''VIN001'')) = 49"
    by (simp add: getLatest_fallback literal_eval)
  have v: "of_int (js_rem (foldl (\<lambda>acc char. acc + charCodeAt0 char) 0 (js_str ''VIN001'') + 19) 7 - 3)
                 - of_int (js_rem (foldl (\<lambda>acc char. acc + charCodeAt0 char) 0 (js_str ''VIN001'')) 7 - 3)
           = (- 2 :: rat)"
    by (simp add: literal_eval js_rem_def)
  obtain t where t: "generateSampleTelemetry 0 (Some (js_str ''VIN001'')) = Inr t"
      "health_score (t ! 0) = Some (getLatestHealthScore t (Some (js_str ''VIN001'')))"
      "getLatestHealthScore t (Some (js_str ''VIN001'')) - getLatestHealthScore [] (Some (js_str ''VIN001''))
         = - 2"
    using displayed_latest_is_oldest [OF ne, of 0] unfolding v by blast
  have "getLatestHealthScore t (Some (js_str ''VIN001'')) = 47"
    using t(3) unfolding i by simp
  then show ?thesis using ne i t(1,2) by blast
qed

end
